theory Spec2Isabelle
  imports Main
begin

section \<open>gosummarize: summaries of the exported declarations of Go files\<close>

text \<open>
  The development follows the variant of the program that takes the \<^verbatim>\<open>-t\<close> flag
  (\<^verbatim>\<open>findGoFiles(root, ignoreTests)\<close>, methods printed as \<^verbatim>\<open>func (s *T) M()\<close>).
  The earlier variant differs in two places: its \<^verbatim>\<open>findGoFiles(root)\<close> is the one here
  with \<open>ignoreTests = False\<close>, and it prints the line of a function or method in another
  format.
  The Go standard library is not part of the program: the syntax tree of \<^verbatim>\<open>go/ast\<close> is
  a datatype, \<^verbatim>\<open>printer.Fprint\<close> and \<^verbatim>\<open>parser.ParseFile\<close> are parameters
  (\<open>Fprint\<close>, \<open>ParseFile\<close>), and \<^verbatim>\<open>filepath.Walk\<close> is a recursion over a tree of
  directory entries. Strings are byte lists.
\<close>

subsection \<open>Functions of package strings\<close>

abbreviation NL :: string where
  "NL \<equiv> [CHR 0x0A]"

abbreviation TAB :: string where
  "TAB \<equiv> [CHR 0x09]"

definition HasSuffix :: "string \<Rightarrow> string \<Rightarrow> bool" where
  "HasSuffix s suffix \<longleftrightarrow>
     length s \<ge> length suffix \<and> drop (length s - length suffix) s = suffix"

definition HasPrefix :: "string \<Rightarrow> string \<Rightarrow> bool" where
  "HasPrefix s prefix \<longleftrightarrow> length s \<ge> length prefix \<and> take (length prefix) s = prefix"

definition TrimPrefix :: "string \<Rightarrow> string \<Rightarrow> string" where
  "TrimPrefix s prefix = (if HasPrefix s prefix then drop (length prefix) s else s)"

definition isSpace :: "char \<Rightarrow> bool" where
  \<comment> \<open>the ASCII white space of \<^verbatim>\<open>unicode.IsSpace\<close>\<close>
  "isSpace c \<longleftrightarrow> c \<in> set [CHR 0x09, CHR 0x0A, CHR 0x0B, CHR 0x0C, CHR 0x0D, CHR '' '']"

definition TrimSpace :: "string \<Rightarrow> string" where
  "TrimSpace s = rev (dropWhile isSpace (rev (dropWhile isSpace s)))"

subsection \<open>The syntax tree (package go/ast), as far as the program reads it\<close>

datatype CommentGroup = CommentGroup (Text: string)

datatype Ident = Ident (Name: string)

definition IsExported :: "Ident \<Rightarrow> bool" where
  \<comment> \<open>\<^verbatim>\<open>ast.Ident.IsExported\<close>: the name starts with an upper-case letter (ASCII here)\<close>
  "IsExported ident \<longleftrightarrow>
     (case Name ident of [] \<Rightarrow> False | c # _ \<Rightarrow> c \<in> set ''ABCDEFGHIJKLMNOPQRSTUVWXYZ'')"

datatype Expr =
    IdentExpr Ident
  | BasicLit string
  | StarExpr Expr
  | ArrayType Expr
  | MapType Expr Expr
  | FuncType FieldList "FieldList option"
  | InterfaceType "FieldList option"
  | StructType "FieldList option"
  | OtherExpr string
and FieldList = FieldList (List: "Field list")
and Field = Field "CommentGroup option" "Ident list" Expr

datatype Token = tokCONST | tokVAR | tokTYPE | tokIMPORT

datatype Spec =
    ImportSpec string
  | ValueSpec "Ident list" "Expr option" "Expr option list"
  | TypeSpec Ident Expr

datatype Decl =
    FuncDecl "CommentGroup option" "FieldList option" Ident Expr
  | GenDecl "CommentGroup option" Token "Spec list"
  | BadDecl

datatype File = File (Decls: "Decl list")

subsection \<open>Standard output\<close>

text \<open>
  Standard output is the list of the print calls made so far, one constructor for each
  call site of the program with the arguments it passes; \<open>Sprintf\<close> is the text of the
  call, by its format string.
\<close>

datatype Printf =
    FileStart string
  | FileEnd string
  | MethodNamedRecv string string string string
  | MethodAnonRecv string string string
  | FuncLine string string
  | DocLine string
  | Blank
  | StructOpen string
  | FieldDocLine string
  | FieldLine string string
  | StructClose
  | TypeLine string string
  | ValueLine string string string string
  | ErrLine string
  | UsageLine
  | FindErrLine string
  | NoFilesLine

fun Sprintf :: "Printf \<Rightarrow> string" where
  "Sprintf (FileStart filePath) = ''<<<FILE_START>>> '' @ filePath @ NL @ NL"
| "Sprintf (FileEnd filePath) = ''<<<FILE_END>>> '' @ filePath @ NL @ NL"
| "Sprintf (MethodNamedRecv recvVarName recvType name signature) =
     ''func ('' @ recvVarName @ '' '' @ recvType @ '') '' @ name @ signature @ NL"
| "Sprintf (MethodAnonRecv recvType name signature) =
     ''func ('' @ recvType @ '') '' @ name @ signature @ NL"
| "Sprintf (FuncLine name signature) = ''func '' @ name @ signature @ NL"
| "Sprintf (DocLine doc) = ''    '' @ doc @ NL"
| "Sprintf Blank = NL"
| "Sprintf (StructOpen name) = ''type '' @ name @ '' struct {'' @ NL"
| "Sprintf (FieldDocLine fieldDoc) = TAB @ ''// '' @ fieldDoc @ NL"
| "Sprintf (FieldLine name fieldType) = TAB @ name @ TAB @ fieldType @ NL"
| "Sprintf StructClose = ''}'' @ NL"
| "Sprintf (TypeLine name typeDefinition) = ''type '' @ name @ '' '' @ typeDefinition @ NL"
| "Sprintf (ValueLine declType name typeStr valueStr) =
     declType @ '' '' @ name @ typeStr @ valueStr @ NL"
| "Sprintf (ErrLine err) = err @ NL"
| "Sprintf UsageLine = ''Usage: gosummarize [-t] <directory>'' @ NL"
| "Sprintf (FindErrLine err) = ''Error finding Go files: '' @ err @ NL"
| "Sprintf NoFilesLine =
     ''No Go files found in the specified directory or its subdirectories'' @ NL"

definition stdoutText :: "Printf list \<Rightarrow> string" where
  "stdoutText out = concat (map Sprintf out)"

subsection \<open>processDeclaration\<close>

datatype panic = IndexOutOfRange | NilDereference

definition docText :: "CommentGroup option \<Rightarrow> string" where
  \<comment> \<open>\<^verbatim>\<open>doc := ""; if x.Doc != nil { doc = x.Doc.Text() }\<close>\<close>
  "docText d = (case d of None \<Rightarrow> [] | Some g \<Rightarrow> Text g)"

definition docLines :: "string \<Rightarrow> Printf list" where
  \<comment> \<open>\<^verbatim>\<open>if doc != "" { fmt.Printf("    %s\n", strings.TrimSpace(doc)) }\<close>\<close>
  "docLines doc = (if doc \<noteq> [] then [DocLine (TrimSpace doc)] else [])"

text \<open>The body of the loop over \<^verbatim>\<open>structType.Fields.List\<close>.\<close>

fun fieldLines :: "(Expr \<Rightarrow> string) \<Rightarrow> Field \<Rightarrow> Printf list" where
  "fieldLines Fprint (Field doc names ty) =
     (if length names > 0 \<and> IsExported (names ! 0) then
        (let fieldType = Fprint ty in
           (case doc of
              None \<Rightarrow> []
            | Some g \<Rightarrow> if Text g \<noteq> [] then [FieldDocLine (TrimSpace (Text g))] else [])
           @ [FieldLine (Name (names ! 0)) fieldType])
      else [])"

text \<open>
  The loop \<^verbatim>\<open>for i, name := range s.Names\<close> of a value specification, from index
  \<open>i\<close> on; \<open>doc\<close> is the text of the comment of the whole declaration.
\<close>

fun valueLines ::
  "(Expr \<Rightarrow> string) \<Rightarrow> string \<Rightarrow> Token \<Rightarrow> Expr option \<Rightarrow> Expr option list \<Rightarrow> nat \<Rightarrow>
   Ident list \<Rightarrow> Printf list" where
  "valueLines Fprint doc tok ty vals i [] = []"
| "valueLines Fprint doc tok ty vals i (name # names) =
     (if IsExported name then
        (let declType = (if tok = tokCONST then ''const'' else ''var'');
             typeStr = (case ty of None \<Rightarrow> [] | Some t \<Rightarrow> '' '' @ Fprint t);
             valueStr = (if i < length vals
                         then (case vals ! i of None \<Rightarrow> [] | Some v \<Rightarrow> '' = '' @ Fprint v)
                         else [])
         in [ValueLine declType (Name name) typeStr valueStr] @ docLines doc @ [Blank])
      else [])
     @ valueLines Fprint doc tok ty vals (Suc i) names"

text \<open>One round of the loop over \<^verbatim>\<open>gen.Specs\<close>: the type switch on the specification.\<close>

fun processSpec :: "(Expr \<Rightarrow> string) \<Rightarrow> CommentGroup option \<Rightarrow> Token \<Rightarrow> Spec \<Rightarrow> Printf list" where
  "processSpec Fprint gdoc tok (TypeSpec name ty) =
     (if IsExported name then
        (let doc = docText gdoc in
           (case ty of
              StructType (Some fields) \<Rightarrow>
                [StructOpen (Name name)] @ concat (map (fieldLines Fprint) (List fields))
                @ [StructClose]
            | _ \<Rightarrow> [TypeLine (Name name) (Fprint ty)])
           @ docLines doc @ [Blank])
      else [])"
| "processSpec Fprint gdoc tok (ValueSpec names ty vals) =
     valueLines Fprint (docText gdoc) tok ty vals 0 names"
| "processSpec Fprint gdoc tok (ImportSpec path) = []"

text \<open>
  What one call of \<^verbatim>\<open>processDeclaration\<close> prints. Reading \<^verbatim>\<open>fn.Recv.List[0]\<close> of
  an empty receiver list panics, before anything is printed for the declaration.
\<close>

fun processDeclaration :: "(Expr \<Rightarrow> string) \<Rightarrow> Decl \<Rightarrow> panic + Printf list" where
  "processDeclaration Fprint (FuncDecl fdoc recv name ty) =
     (if IsExported name then
        (let doc = docText fdoc;
             signature = TrimPrefix (Fprint ty) ''func''
         in case recv of
              Some (FieldList []) \<Rightarrow> Inl IndexOutOfRange
            | Some (FieldList (Field rdoc rnames rty # _)) \<Rightarrow>
                (let recvType = Fprint rty;
                     recvVarName = (if length rnames > 0 then Name (rnames ! 0) else [])
                 in Inr ([if recvVarName \<noteq> []
                          then MethodNamedRecv recvVarName recvType (Name name) signature
                          else MethodAnonRecv recvType (Name name) signature]
                         @ docLines doc @ [Blank]))
            | None \<Rightarrow> Inr ([FuncLine (Name name) signature] @ docLines doc @ [Blank]))
      else Inr [])"
| "processDeclaration Fprint (GenDecl gdoc tok specs) =
     Inr (concat (map (processSpec Fprint gdoc tok) specs))"
| "processDeclaration Fprint BadDecl = Inr []"

subsection \<open>summarizeFile\<close>

text \<open>
  The loop over \<^verbatim>\<open>file.Decls\<close>, on the output written so far; a panic leaves what
  was printed before it.
\<close>

fun processDecls :: "(Expr \<Rightarrow> string) \<Rightarrow> Decl list \<Rightarrow> Printf list \<Rightarrow> Printf list \<times> panic option" where
  "processDecls Fprint [] out = (out, None)"
| "processDecls Fprint (decl # decls) out =
     (case processDeclaration Fprint decl of
        Inl p \<Rightarrow> (out, Some p)
      | Inr ws \<Rightarrow> processDecls Fprint decls (out @ ws))"

datatype 'a outcome = Return 'a | Panicked panic

text \<open>
  \<open>ParseFile filePath\<close> is \<^verbatim>\<open>parser.ParseFile(fset, filePath, nil, parser.ParseComments)\<close>
  on the file system of the run: \<open>Inl\<close> the text of its error, \<open>Inr\<close> the tree. The
  value returned is Go's \<^verbatim>\<open>error\<close>: \<open>None\<close> for \<^verbatim>\<open>nil\<close>.
\<close>

definition summarizeFile ::
  "(string \<Rightarrow> string + File) \<Rightarrow> (Expr \<Rightarrow> string) \<Rightarrow> string \<Rightarrow> Printf list \<Rightarrow>
   Printf list \<times> string option outcome" where
  "summarizeFile ParseFile Fprint filePath out =
     (case ParseFile filePath of
        Inl err \<Rightarrow> (out, Return (Some (''error parsing '' @ filePath @ '': '' @ err)))
      | Inr file \<Rightarrow>
          (case processDecls Fprint (Decls file) (out @ [FileStart filePath]) of
             (out', Some p) \<Rightarrow> (out', Panicked p)
           | (out', None) \<Rightarrow> (out' @ [FileEnd filePath], Return None)))"

subsection \<open>findGoFiles\<close>

definition Join :: "string \<Rightarrow> string \<Rightarrow> string" where
  \<comment> \<open>\<^verbatim>\<open>filepath.Join(dir, name)\<close> for a directory path in clean form and an entry name\<close>
  "Join dir name =
     (if dir = ''.'' then name else if dir = ''/'' then ''/'' @ name else dir @ ''/'' @ name)"

definition Base :: "string \<Rightarrow> string" where
  \<comment> \<open>the name of the entry at a path: its last element\<close>
  "Base path = rev (takeWhile (\<lambda>c. c \<noteq> CHR ''/'') (rev path))"

datatype FileInfo = FileInfo (IsDir: bool)

text \<open>
  What \<^verbatim>\<open>filepath.Walk\<close> finds at a path: an entry that is no directory (a regular
  file, a symbolic link, ...), a directory with its entries by name in the order they are
  read (sorted), a directory that cannot be read, or an entry whose \<^verbatim>\<open>Lstat\<close> fails.
\<close>

datatype Node =
    NonDirectory
  | Directory "(string \<times> Node) list"
  | UnreadableDir string
  | NoLstat string

text \<open>
  The function literal passed to \<^verbatim>\<open>filepath.Walk\<close>, on the captured slice
  \<open>files\<close>. \<^verbatim>\<open>info\<close> is nil where \<^verbatim>\<open>Lstat\<close> failed; reading it then would panic.
\<close>

definition walkFn ::
  "bool \<Rightarrow> string \<Rightarrow> FileInfo option \<Rightarrow> string option \<Rightarrow> string list \<Rightarrow>
   string list \<times> string option outcome" where
  "walkFn ignoreTests path info err files =
     (case err of
        Some e \<Rightarrow> (files, Return (Some e))
      | None \<Rightarrow>
          (case info of
             None \<Rightarrow> (files, Panicked NilDereference)
           | Some i \<Rightarrow>
               if \<not> IsDir i \<and> HasSuffix path ''.go'' then
                 (if ignoreTests \<and> HasSuffix path ''_test.go'' then (files, Return None)
                  else (files @ [path], Return None))
               else (files, Return None)))"

text \<open>
  \<^verbatim>\<open>filepath.Walk\<close>: the callback is called on the root and then, depth first, on every
  entry below it; the first call that does not return nil ends the walk with that
  result. (The callback above never returns \<^verbatim>\<open>SkipDir\<close>.)
\<close>

fun walk ::
  "(string \<Rightarrow> FileInfo option \<Rightarrow> string option \<Rightarrow> 's \<Rightarrow> 's \<times> string option outcome) \<Rightarrow>
   string \<Rightarrow> Node \<Rightarrow> 's \<Rightarrow> 's \<times> string option outcome"
and walkEntries ::
  "(string \<Rightarrow> FileInfo option \<Rightarrow> string option \<Rightarrow> 's \<Rightarrow> 's \<times> string option outcome) \<Rightarrow>
   string \<Rightarrow> (string \<times> Node) list \<Rightarrow> 's \<Rightarrow> 's \<times> string option outcome" where
  "walk fn path NonDirectory s = fn path (Some (FileInfo False)) None s"
| "walk fn path (Directory entries) s =
     (case fn path (Some (FileInfo True)) None s of
        (s', Return None) \<Rightarrow> walkEntries fn path entries s'
      | r \<Rightarrow> r)"
| "walk fn path (UnreadableDir e) s = fn path (Some (FileInfo True)) (Some e) s"
| "walk fn path (NoLstat e) s = fn path None (Some e) s"
| "walkEntries fn path [] s = (s, Return None)"
| "walkEntries fn path (entry # entries) s =
     (case walk fn (Join path (fst entry)) (snd entry) s of
        (s', Return None) \<Rightarrow> walkEntries fn path entries s'
      | r \<Rightarrow> r)"

text \<open>\<open>tree\<close> is what the file system holds at the path \<open>root\<close>.\<close>

definition findGoFiles ::
  "Node \<Rightarrow> string \<Rightarrow> bool \<Rightarrow> string list \<times> string option outcome" where
  "findGoFiles tree root ignoreTests = walk (walkFn ignoreTests) root tree []"

subsection \<open>main\<close>

text \<open>The loop over the files found, on the output written so far.\<close>

fun summarizeFiles ::
  "(string \<Rightarrow> string + File) \<Rightarrow> (Expr \<Rightarrow> string) \<Rightarrow> string list \<Rightarrow> Printf list \<Rightarrow>
   Printf list \<times> panic option" where
  "summarizeFiles ParseFile Fprint [] out = (out, None)"
| "summarizeFiles ParseFile Fprint (file # files) out =
     (case summarizeFile ParseFile Fprint file out of
        (out', Panicked p) \<Rightarrow> (out', Some p)
      | (out', Return None) \<Rightarrow> summarizeFiles ParseFile Fprint files out'
      | (out', Return (Some err)) \<Rightarrow> summarizeFiles ParseFile Fprint files (out' @ [ErrLine err]))"

text \<open>
  \<open>ignoreTests\<close> and \<open>args\<close> are the flag and the arguments left by \<^verbatim>\<open>flag.Parse\<close>,
  \<open>fs dirPath\<close> is what the file system holds at \<open>dirPath\<close>; the result is standard
  output and the exit status. (\<^verbatim>\<open>flag.PrintDefaults\<close> writes to standard error.)
\<close>

definition main ::
  "(string \<Rightarrow> Node) \<Rightarrow> (string \<Rightarrow> string + File) \<Rightarrow> (Expr \<Rightarrow> string) \<Rightarrow> bool \<Rightarrow> string list \<Rightarrow>
   Printf list \<times> nat outcome" where
  "main fs ParseFile Fprint ignoreTests args =
     (if length args < 1 then ([UsageLine], Return 1)
      else
        (let dirPath = args ! 0 in
           case findGoFiles (fs dirPath) dirPath ignoreTests of
             (files, Panicked p) \<Rightarrow> ([], Panicked p)
           | (files, Return (Some err)) \<Rightarrow> ([FindErrLine err], Return 1)
           | (files, Return None) \<Rightarrow>
               if length files = 0 then ([NoFilesLine], Return 0)
               else
                 (case summarizeFiles ParseFile Fprint files [] of
                    (out, Some p) \<Rightarrow> (out, Panicked p)
                  | (out, None) \<Rightarrow> (out, Return 0))))"

subsection \<open>Observations on the output\<close>

text \<open>
  The identifier that a print call writes in the place of a declared name: the name of a
  function, method, type, constant or variable, or of a struct field.
\<close>

fun declaredName :: "Printf \<Rightarrow> string option" where
  "declaredName (MethodNamedRecv recvVarName recvType name signature) = Some name"
| "declaredName (MethodAnonRecv recvType name signature) = Some name"
| "declaredName (FuncLine name signature) = Some name"
| "declaredName (StructOpen name) = Some name"
| "declaredName (FieldLine name fieldType) = Some name"
| "declaredName (TypeLine name typeDefinition) = Some name"
| "declaredName (ValueLine declType name typeStr valueStr) = Some name"
| "declaredName _ = None"

definition exportedNamesOnly :: "Printf list \<Rightarrow> bool" where
  "exportedNamesOnly ws \<longleftrightarrow>
     list_all (\<lambda>c. case declaredName c of None \<Rightarrow> True | Some n \<Rightarrow> IsExported (Ident n)) ws"

subsection \<open>Example inputs\<close>

text \<open>
  A stand-in for \<^verbatim>\<open>printer.Fprint\<close> in the examples: identifiers and literals by their
  text, \<open>OtherExpr\<close> by the text it carries, and a struct type with its field list, one
  field on a line, the names and the type of a field after a tab each.
\<close>

fun joinNames :: "Ident list \<Rightarrow> string" where
  "joinNames [] = []"
| "joinNames [name] = Name name"
| "joinNames (name # names) = Name name @ '', '' @ joinNames names"

fun printText :: "Expr \<Rightarrow> string"
and printFields :: "Field list \<Rightarrow> string"
and printField :: "Field \<Rightarrow> string" where
  "printText (IdentExpr i) = Name i"
| "printText (BasicLit s) = s"
| "printText (StarExpr e) = ''*'' @ printText e"
| "printText (ArrayType e) = ''[]'' @ printText e"
| "printText (MapType k v) = ''map['' @ printText k @ '']'' @ printText v"
| "printText (OtherExpr s) = s"
| "printText (FuncType params results) = ''func(...)''"
| "printText (InterfaceType methods) = ''interface {...}''"
| "printText (StructType None) = ''struct {}''"
| "printText (StructType (Some (FieldList fields))) =
     ''struct {'' @ NL @ printFields fields @ ''}''"
| "printFields [] = []"
| "printFields (field # fields) = printField field @ printFields fields"
| "printField (Field doc names ty) =
     TAB @ (if names = [] then [] else joinNames names @ TAB) @ printText ty @ NL"



text \<open>Declarations of \<^verbatim>\<open>testdata/sample.go\<close>, as the parser gives them.\<close>

definition sampleFile :: File where
  "sampleFile = File
    [GenDecl
       (Some (CommentGroup (''PublicStruct is a sample, exported struct with documentation'' @ NL)))
       tokTYPE
       [TypeSpec (Ident ''PublicStruct'')
          (StructType (Some (FieldList
            [Field (Some (CommentGroup (''PublicField is an exported field'' @ NL)))
               [Ident ''PublicField''] (IdentExpr (Ident ''string'')),
             Field None [Ident ''privateField''] (IdentExpr (Ident ''int''))])))],
     GenDecl (Some (CommentGroup (''PublicInterface is an exported interface'' @ NL))) tokTYPE
       [TypeSpec (Ident ''PublicInterface'')
          (InterfaceType (Some (FieldList
            [Field None [Ident ''DoSomething''] (OtherExpr ''func() error''),
             Field None [Ident ''ProcessData''] (OtherExpr ''func(input string) string'')])))],
     GenDecl (Some (CommentGroup (''MultipleConsts defines multiple constants'' @ NL))) tokCONST
       [ValueSpec [Ident ''FirstConst''] None [Some (BasicLit ''1'')],
        ValueSpec [Ident ''SecondConst''] None [Some (BasicLit ''2'')],
        ValueSpec [Ident ''privateConst''] None [Some (BasicLit ''3'')]],
     FuncDecl (Some (CommentGroup (''DoSomething implements the PublicInterface'' @ NL)))
       (Some (FieldList
          [Field None [Ident ''s''] (StarExpr (IdentExpr (Ident ''StructWithInterface'')))]))
       (Ident ''DoSomething'') (OtherExpr ''func() error''),
     FuncDecl
       (Some (CommentGroup
          (''PublicFunction is an exported function with parameters and return values'' @ NL @
           ''It demonstrates a function with documentation'' @ NL)))
       None (Ident ''PublicFunction'')
       (OtherExpr ''func(input string, count int) (string, error)''),
     FuncDecl None None (Ident ''privateFunction'') (OtherExpr ''func()'')]"

subsection \<open>Struct fields, as the specification counts them\<close>

fun isFieldLine :: "Printf \<Rightarrow> bool" where
  "isFieldLine (FieldLine name fieldType) = True"
| "isFieldLine _ = False"

fun fieldNames :: "Field \<Rightarrow> Ident list" where
  "fieldNames (Field doc names ty) = names"

text \<open>
  The exported fields of a struct type in the words of the specification: every name
  that an entry of the field list declares and that is exported.
\<close>

definition exportedFields :: "Field list \<Rightarrow> Ident list" where
  "exportedFields fields = filter IsExported (concat (map fieldNames fields))"

subsection \<open>The entries of a directory tree\<close>

text \<open>A tree is readable when no \<^verbatim>\<open>Lstat\<close> and no directory listing in it fails.\<close>

fun readable :: "Node \<Rightarrow> bool"
and readableEntries :: "(string \<times> Node) list \<Rightarrow> bool" where
  "readable NonDirectory = True"
| "readable (Directory entries) = readableEntries entries"
| "readable (UnreadableDir e) = False"
| "readable (NoLstat e) = False"
| "readableEntries [] = True"
| "readableEntries (entry # entries) = (readable (snd entry) \<and> readableEntries entries)"

text \<open>The paths of the files that are no directories, at any depth, in the order of the walk.\<close>

fun filesBelow :: "string \<Rightarrow> Node \<Rightarrow> string list"
and filesBelowEntries :: "string \<Rightarrow> (string \<times> Node) list \<Rightarrow> string list" where
  "filesBelow path NonDirectory = [path]"
| "filesBelow path (Directory entries) = filesBelowEntries path entries"
| "filesBelow path (UnreadableDir e) = []"
| "filesBelow path (NoLstat e) = []"
| "filesBelowEntries path [] = []"
| "filesBelowEntries path (entry # entries) =
     filesBelow (Join path (fst entry)) (snd entry) @ filesBelowEntries path entries"

text \<open>
  \<open>entryAt root tree path node\<close>: below \<open>root\<close>, which holds \<open>tree\<close>, the entry at
  \<open>path\<close> is \<open>node\<close>; the root itself, or an entry of a directory that is one.
\<close>

inductive entryAt :: "string \<Rightarrow> Node \<Rightarrow> string \<Rightarrow> Node \<Rightarrow> bool"
  for root :: string and tree :: Node where
  atRoot: "entryAt root tree root tree"
| below: "entryAt root tree path (Directory entries) \<Longrightarrow> (name, node) \<in> set entries \<Longrightarrow>
          entryAt root tree (Join path name) node"

definition isGoFile :: "bool \<Rightarrow> string \<Rightarrow> bool" where
  "isGoFile ignoreTests path \<longleftrightarrow>
     HasSuffix path ''.go'' \<and> \<not> (ignoreTests \<and> HasSuffix path ''_test.go'')"

section \<open>Properties\<close>

subsection \<open>Only exported names are declared in the output\<close>

lemma exportedNamesOnly_append [simp]:
  "exportedNamesOnly (xs @ ys) \<longleftrightarrow> exportedNamesOnly xs \<and> exportedNamesOnly ys"
  by (simp add: exportedNamesOnly_def)

lemma exportedNamesOnly_Nil [simp]: "exportedNamesOnly []"
  by (simp add: exportedNamesOnly_def)

lemma exportedNamesOnly_Cons [simp]:
  "exportedNamesOnly (c # cs) \<longleftrightarrow>
     (case declaredName c of None \<Rightarrow> True | Some n \<Rightarrow> IsExported (Ident n)) \<and>
     exportedNamesOnly cs"
  by (simp add: exportedNamesOnly_def)

lemma exportedNamesOnly_concat:
  "(\<And>x. x \<in> set xs \<Longrightarrow> exportedNamesOnly (f x)) \<Longrightarrow> exportedNamesOnly (concat (map f xs))"
  by (induction xs) simp_all

lemma exportedNamesOnly_docLines [simp]: "exportedNamesOnly (docLines doc)"
  by (simp add: docLines_def)

lemma exportedNamesOnly_fieldLines [simp]: "exportedNamesOnly (fieldLines Fprint field)"
  by (cases field) (simp split: option.splits)

lemma exportedNamesOnly_fields [simp]:
  "exportedNamesOnly (concat (map (fieldLines Fprint) fields))"
  by (rule exportedNamesOnly_concat) simp

lemma exportedNamesOnly_valueLines [simp]:
  "exportedNamesOnly (valueLines Fprint doc tok ty vals i names)"
  by (induction names arbitrary: i) (simp_all add: Let_def)

lemma exportedNamesOnly_processSpec [simp]:
  "exportedNamesOnly (processSpec Fprint gdoc tok spec)"
  by (cases spec) (simp_all add: Let_def split: Expr.splits option.splits)





lemma summarizeFile_sampleFile:
  "summarizeFile (\<lambda>p. Inr sampleFile) printText ''testdata/sample.go'' [] =
     ([FileStart ''testdata/sample.go'',
       StructOpen ''PublicStruct'',
       FieldDocLine ''PublicField is an exported field'',
       FieldLine ''PublicField'' ''string'',
       StructClose,
       DocLine ''PublicStruct is a sample, exported struct with documentation'',
       Blank,
       TypeLine ''PublicInterface'' ''interface {...}'',
       DocLine ''PublicInterface is an exported interface'',
       Blank,
       ValueLine ''const'' ''FirstConst'' [] '' = 1'',
       DocLine ''MultipleConsts defines multiple constants'',
       Blank,
       ValueLine ''const'' ''SecondConst'' [] '' = 2'',
       DocLine ''MultipleConsts defines multiple constants'',
       Blank,
       MethodNamedRecv ''s'' ''*StructWithInterface'' ''DoSomething'' ''() error'',
       DocLine ''DoSomething implements the PublicInterface'',
       Blank,
       FuncLine ''PublicFunction'' ''(input string, count int) (string, error)'',
       DocLine (''PublicFunction is an exported function with parameters and return values''
         @ NL @ ''It demonstrates a function with documentation''),
       Blank,
       FileEnd ''testdata/sample.go''],
      Return None)"
  by code_simp



subsection \<open>Running summarizeFile again\<close>

lemma processDecls_frame:
  "processDecls Fprint decls out =
     (out @ fst (processDecls Fprint decls []), snd (processDecls Fprint decls []))"
proof (induction decls arbitrary: out)
  case Nil
  show ?case by simp
next
  case (Cons decl decls)
  show ?case
  proof (cases "processDeclaration Fprint decl")
    case (Inl p)
    then show ?thesis by simp
  next
    case (Inr ws)
    from Cons.IH [of "out @ ws"] Cons.IH [of ws] Inr show ?thesis by simp
  qed
qed

lemma summarizeFile_frame:
  "summarizeFile ParseFile Fprint filePath out =
     (out @ fst (summarizeFile ParseFile Fprint filePath []),
      snd (summarizeFile ParseFile Fprint filePath []))"
proof (cases "ParseFile filePath")
  case (Inl err)
  then show ?thesis by (simp add: summarizeFile_def)
next
  case (Inr f)
  from processDecls_frame [of Fprint "Decls f" "out @ [FileStart filePath]"]
    processDecls_frame [of Fprint "Decls f" "[FileStart filePath]"] Inr
  show ?thesis
    by (cases "snd (processDecls Fprint (Decls f) [])") (simp_all add: summarizeFile_def)
qed

lemma stdoutText_append: "stdoutText (xs @ ys) = stdoutText xs @ stdoutText ys"
  by (simp add: stdoutText_def)

text \<open>
  C9. Summarizing is deterministic: two runs of \<open>summarizeFile\<close> on the same file, one
  after the other on the same standard output, return the same result and write the same
  block, so that the text of the second run is that of the first, byte for byte. (The
  parser and the printer are functions of the file: its content does not change between
  the runs.)
\<close>

theorem summarizeFile_twice_same_output:
  assumes "summarizeFile ParseFile Fprint filePath out = (out1, r1)"
    and "summarizeFile ParseFile Fprint filePath out1 = (out2, r2)"
  shows "\<exists>block. out1 = out @ block \<and> out2 = out1 @ block \<and> r2 = r1 \<and>
           stdoutText out2 = stdoutText out @ stdoutText block @ stdoutText block"
proof -
  let ?block = "fst (summarizeFile ParseFile Fprint filePath [])"
  from assms(1) summarizeFile_frame [of ParseFile Fprint filePath out]
  have 1: "out1 = out @ ?block" "r1 = snd (summarizeFile ParseFile Fprint filePath [])"
    by simp_all
  from assms(2) summarizeFile_frame [of ParseFile Fprint filePath out1]
  have 2: "out2 = out1 @ ?block" "r2 = snd (summarizeFile ParseFile Fprint filePath [])"
    by simp_all
  from 1 2 show ?thesis
    by (intro exI [of _ ?block]) (simp add: stdoutText_append)
qed

theorem summarizeFile_twice_same_output_witness:
  "summarizeFile (\<lambda>p. Inr sampleFile) printText ''testdata/sample.go'' [Blank] =
     (fst (summarizeFile (\<lambda>p. Inr sampleFile) printText ''testdata/sample.go'' [Blank]),
      Return None)
   \<and> summarizeFile (\<lambda>p. Inr sampleFile) printText ''testdata/sample.go''
       (fst (summarizeFile (\<lambda>p. Inr sampleFile) printText ''testdata/sample.go'' [Blank])) =
     (fst (summarizeFile (\<lambda>p. Inr sampleFile) printText ''testdata/sample.go''
        (fst (summarizeFile (\<lambda>p. Inr sampleFile) printText ''testdata/sample.go'' [Blank]))),
      Return None)
   \<and> (\<exists>block.
        fst (summarizeFile (\<lambda>p. Inr sampleFile) printText ''testdata/sample.go'' [Blank]) =
          [Blank] @ block
      \<and> fst (summarizeFile (\<lambda>p. Inr sampleFile) printText ''testdata/sample.go''
          (fst (summarizeFile (\<lambda>p. Inr sampleFile) printText ''testdata/sample.go'' [Blank]))) =
          fst (summarizeFile (\<lambda>p. Inr sampleFile) printText ''testdata/sample.go'' [Blank])
          @ block)"
proof -
  let ?P = "\<lambda>p :: string. (Inr sampleFile :: string + File)"
  let ?out1 = "fst (summarizeFile ?P printText ''testdata/sample.go'' [Blank])"
  let ?out2 = "fst (summarizeFile ?P printText ''testdata/sample.go'' ?out1)"
  have r: "snd (summarizeFile ?P printText ''testdata/sample.go'' out) = Return None" for out
    using summarizeFile_frame [of ?P printText "''testdata/sample.go''" out]
    by (simp add: summarizeFile_sampleFile)
  have h1: "summarizeFile ?P printText ''testdata/sample.go'' [Blank] = (?out1, Return None)"
    using r [of "[Blank]"] by (simp add: prod_eq_iff)
  have h2: "summarizeFile ?P printText ''testdata/sample.go'' ?out1 = (?out2, Return None)"
    using r [of ?out1] by (simp add: prod_eq_iff)
  from summarizeFile_twice_same_output [OF h1 h2] h1 h2 show ?thesis by blast
qed

subsection \<open>Files that do not parse\<close>

lemma summarizeFiles_append:
  "summarizeFiles ParseFile Fprint (xs @ ys) out =
     (case summarizeFiles ParseFile Fprint xs out of
        (out1, Some p) \<Rightarrow> (out1, Some p)
      | (out1, None) \<Rightarrow> summarizeFiles ParseFile Fprint ys out1)"
proof (induction xs arbitrary: out)
  case Nil
  show ?case by simp
next
  case (Cons x xs)
  show ?case
    by (cases "summarizeFile ParseFile Fprint x out")
       (simp add: Cons.IH split: outcome.splits option.splits)
qed

text \<open>
  C4. For a file that fails to parse, \<open>summarizeFile\<close> writes nothing (no
  \<^verbatim>\<open><<<FILE_START>>>\<close> marker, no part of a block) and returns an error that names
  the file and the cause; the loop of \<open>main\<close> prints the error and goes on with the
  files after it exactly as it would have from there, wherever the file stands in the
  list, and the exit status of \<open>main\<close> is that of a run without the failure.
\<close>

theorem parse_failure_writes_nothing_and_run_continues:
  assumes "ParseFile filePath = Inl cause"
  shows "summarizeFile ParseFile Fprint filePath out =
           (out, Return (Some (''error parsing '' @ filePath @ '': '' @ cause)))
       \<and> summarizeFiles ParseFile Fprint (before @ filePath # rest) out =
           (case summarizeFiles ParseFile Fprint before out of
              (out1, Some p) \<Rightarrow> (out1, Some p)
            | (out1, None) \<Rightarrow>
                summarizeFiles ParseFile Fprint rest
                  (out1 @ [ErrLine (''error parsing '' @ filePath @ '': '' @ cause)]))
       \<and> (findGoFiles (fs dirPath) dirPath ignoreTests = (before @ filePath # rest, Return None)
            \<longrightarrow> main fs ParseFile Fprint ignoreTests [dirPath] =
              (case summarizeFiles ParseFile Fprint before [] of
                 (out1, Some p) \<Rightarrow> (out1, Panicked p)
               | (out1, None) \<Rightarrow>
                   (case summarizeFiles ParseFile Fprint rest
                           (out1 @ [ErrLine (''error parsing '' @ filePath @ '': '' @ cause)]) of
                      (out2, Some p) \<Rightarrow> (out2, Panicked p)
                    | (out2, None) \<Rightarrow> (out2, Return 0))))"
proof -
  have one: "summarizeFile ParseFile Fprint filePath out' =
      (out', Return (Some (''error parsing '' @ filePath @ '': '' @ cause)))" for out'
    using assms by (simp add: summarizeFile_def)
  then have many: "summarizeFiles ParseFile Fprint (before @ filePath # rest) out' =
      (case summarizeFiles ParseFile Fprint before out' of
         (out1, Some p) \<Rightarrow> (out1, Some p)
       | (out1, None) \<Rightarrow>
           summarizeFiles ParseFile Fprint rest
             (out1 @ [ErrLine (''error parsing '' @ filePath @ '': '' @ cause)]))" for out'
    by (simp add: summarizeFiles_append split: prod.splits option.splits)
  show ?thesis
    by (simp add: one many main_def del: summarizeFiles.simps split: prod.splits option.splits)
qed

theorem parse_failure_writes_nothing_and_run_continues_witness:
  "(\<lambda>p. if p = ''src/bad.go'' then Inl ''src/bad.go:1:1: expected package'' else Inr sampleFile)
     ''src/bad.go'' = Inl ''src/bad.go:1:1: expected package''
   \<and> findGoFiles (Directory [(''bad.go'', NonDirectory), (''sample.go'', NonDirectory)])
       ''src'' False = ([] @ ''src/bad.go'' # [''src/sample.go''], Return None)
   \<and> summarizeFile
       (\<lambda>p. if p = ''src/bad.go'' then Inl ''src/bad.go:1:1: expected package''
            else Inr sampleFile)
       printText ''src/bad.go'' [] =
       ([], Return (Some ''error parsing src/bad.go: src/bad.go:1:1: expected package''))
   \<and> main (\<lambda>d. Directory [(''bad.go'', NonDirectory), (''sample.go'', NonDirectory)])
       (\<lambda>p. if p = ''src/bad.go'' then Inl ''src/bad.go:1:1: expected package''
            else Inr sampleFile)
       printText False [''src''] =
       (fst (summarizeFile (\<lambda>p. Inr sampleFile) printText ''src/sample.go''
          [ErrLine ''error parsing src/bad.go: src/bad.go:1:1: expected package'']), Return 0)"
proof -
  let ?P = "\<lambda>p. if p = ''src/bad.go'' then Inl ''src/bad.go:1:1: expected package''
      else Inr sampleFile"
  let ?fs = "\<lambda>d :: string. Directory [(''bad.go'', NonDirectory), (''sample.go'', NonDirectory)]"
  let ?err = "[ErrLine ''error parsing src/bad.go: src/bad.go:1:1: expected package'']"
  have h: "?P ''src/bad.go'' = Inl ''src/bad.go:1:1: expected package''"
    by simp
  have f: "findGoFiles (?fs ''src'') ''src'' False
      = ([] @ ''src/bad.go'' # [''src/sample.go''], Return None)"
    by (simp add: findGoFiles_def walkFn_def Join_def HasSuffix_def)
  have same: "summarizeFile ?P printText ''src/sample.go'' ?err
      = summarizeFile (\<lambda>p. Inr sampleFile) printText ''src/sample.go'' ?err"
    by (simp add: summarizeFile_def)
  have r: "snd (summarizeFile (\<lambda>p. Inr sampleFile) printText ''src/sample.go'' ?err)
      = Return None"
    by code_simp
  have after: "summarizeFiles ?P printText [''src/sample.go''] ?err
      = (fst (summarizeFile (\<lambda>p. Inr sampleFile) printText ''src/sample.go'' ?err), None)"
    using r by (cases "summarizeFile (\<lambda>p. Inr sampleFile) printText ''src/sample.go'' ?err")
      (simp add: same)
  from parse_failure_writes_nothing_and_run_continues
    [of ?P "''src/bad.go''" "''src/bad.go:1:1: expected package''" printText "[]" "[]"
      "[''src/sample.go'']" ?fs "''src''" False, OF h] f h
  show ?thesis
    by (simp add: after del: summarizeFiles.simps(2))
qed

subsection \<open>The lines of the declarations\<close>

lemma TrimPrefix_append: "TrimPrefix (prefix @ rest) prefix = rest"
  by (simp add: TrimPrefix_def HasPrefix_def)

text \<open>
  C2. An exported method whose receiver binds a variable name is written as
  \<^verbatim>\<open>func (<recvVar> <recvType>) <Name><signature>\<close>, one whose receiver is anonymous as
  \<^verbatim>\<open>func (<recvType>) <Name><signature>\<close>, and an exported function without a receiver
  as \<^verbatim>\<open>func <Name><signature>\<close>, where the signature is the printed function type
  without its leading \<^verbatim>\<open>func\<close>. The line of a method always begins with
  \<^verbatim>\<open>func (\<close>.
\<close>

theorem exported_func_decl_line:
  assumes "IsExported name"
  shows "(Name rname \<noteq> [] \<longrightarrow>
            processDeclaration Fprint
              (FuncDecl fdoc (Some (FieldList (Field rdoc (rname # rnames) rty # more))) name ty)
            = Inr (MethodNamedRecv (Name rname) (Fprint rty) (Name name)
                     (TrimPrefix (Fprint ty) ''func'')
                   # docLines (docText fdoc) @ [Blank])
          \<and> Sprintf (MethodNamedRecv (Name rname) (Fprint rty) (Name name)
                       (TrimPrefix (Fprint ty) ''func''))
            = ''func ('' @ Name rname @ '' '' @ Fprint rty @ '') '' @ Name name
              @ TrimPrefix (Fprint ty) ''func'' @ NL)
       \<and> processDeclaration Fprint
            (FuncDecl fdoc (Some (FieldList (Field rdoc [] rty # more))) name ty)
          = Inr (MethodAnonRecv (Fprint rty) (Name name) (TrimPrefix (Fprint ty) ''func'')
                 # docLines (docText fdoc) @ [Blank])
       \<and> Sprintf (MethodAnonRecv (Fprint rty) (Name name) (TrimPrefix (Fprint ty) ''func''))
          = ''func ('' @ Fprint rty @ '') '' @ Name name @ TrimPrefix (Fprint ty) ''func'' @ NL
       \<and> processDeclaration Fprint (FuncDecl fdoc None name ty)
          = Inr (FuncLine (Name name) (TrimPrefix (Fprint ty) ''func'')
                 # docLines (docText fdoc) @ [Blank])
       \<and> Sprintf (FuncLine (Name name) (TrimPrefix (Fprint ty) ''func''))
          = ''func '' @ Name name @ TrimPrefix (Fprint ty) ''func'' @ NL
       \<and> (\<exists>line rest.
            processDeclaration Fprint (FuncDecl fdoc (Some (FieldList (field # more))) name ty)
            = Inr (line # rest) \<and> take 6 (Sprintf line) = ''func ('')
       \<and> (Fprint ty = ''func'' @ sig \<longrightarrow> TrimPrefix (Fprint ty) ''func'' = sig)"
proof -
  have "\<exists>line rest.
      processDeclaration Fprint (FuncDecl fdoc (Some (FieldList (field # more))) name ty)
      = Inr (line # rest) \<and> take 6 (Sprintf line) = ''func (''"
    using assms by (cases field) (simp add: Let_def)
  moreover have "Fprint ty = ''func'' @ sig \<longrightarrow> TrimPrefix (Fprint ty) ''func'' = sig"
    using TrimPrefix_append [of "''func''" sig] by simp
  ultimately show ?thesis using assms by (simp add: Let_def)
qed

theorem exported_func_decl_line_witness:
  "IsExported (Ident ''ProcessData'') \<and> Name (Ident ''s'') \<noteq> []
   \<and> printText (OtherExpr ''func(input string) string'') = ''func'' @ ''(input string) string''
   \<and> processDeclaration printText
       (FuncDecl None
          (Some (FieldList
             [Field None [Ident ''s''] (StarExpr (IdentExpr (Ident ''StructWithInterface'')))]))
          (Ident ''ProcessData'') (OtherExpr ''func(input string) string''))
       = Inr [MethodNamedRecv ''s'' ''*StructWithInterface'' ''ProcessData''
                ''(input string) string'', Blank]
   \<and> Sprintf (MethodNamedRecv ''s'' ''*StructWithInterface'' ''ProcessData''
                ''(input string) string'')
       = ''func (s *StructWithInterface) ProcessData(input string) string'' @ NL
   \<and> processDeclaration printText
       (FuncDecl None
          (Some (FieldList [Field None [] (StarExpr (IdentExpr (Ident ''StructWithInterface'')))]))
          (Ident ''ProcessData'') (OtherExpr ''func(input string) string''))
       = Inr [MethodAnonRecv ''*StructWithInterface'' ''ProcessData'' ''(input string) string'',
              Blank]
   \<and> Sprintf (MethodAnonRecv ''*StructWithInterface'' ''ProcessData'' ''(input string) string'')
       = ''func (*StructWithInterface) ProcessData(input string) string'' @ NL
   \<and> processDeclaration printText
       (FuncDecl None None (Ident ''ProcessData'') (OtherExpr ''func(input string) string''))
       = Inr [FuncLine ''ProcessData'' ''(input string) string'', Blank]
   \<and> Sprintf (FuncLine ''ProcessData'' ''(input string) string'')
       = ''func ProcessData(input string) string'' @ NL"
proof -
  have h: "IsExported (Ident ''ProcessData'')"
    by (simp add: IsExported_def)
  have sig: "printText (OtherExpr ''func(input string) string'')
      = ''func'' @ ''(input string) string''"
    by simp
  from exported_func_decl_line [OF h, where rname = "Ident ''s''" and Fprint = printText
      and ty = "OtherExpr ''func(input string) string''" and sig = "''(input string) string''"
      and fdoc = None and rdoc = None and rnames = "[]" and more = "[]"
      and rty = "StarExpr (IdentExpr (Ident ''StructWithInterface''))"] h sig
  show ?thesis
    by (simp add: docLines_def docText_def del: processDeclaration.simps)
qed

text \<open>
  C6. An exported type whose definition is not a struct type (an alias, an interface, a
  map, a slice, a function type, ...) is written as \<^verbatim>\<open>type <Name> <fullTypeText>\<close> with
  the text the printer gives for the whole definition: nothing of it is filtered, and
  the printer receives the method list of an interface as it stands.
\<close>

theorem non_struct_type_verbatim:
  assumes "IsExported name" and "\<forall>fields. ty \<noteq> StructType fields"
  shows "processSpec Fprint gdoc tok (TypeSpec name ty)
           = TypeLine (Name name) (Fprint ty) # docLines (docText gdoc) @ [Blank]
       \<and> processDeclaration Fprint (GenDecl gdoc tok [TypeSpec name ty])
           = Inr (TypeLine (Name name) (Fprint ty) # docLines (docText gdoc) @ [Blank])
       \<and> Sprintf (TypeLine (Name name) (Fprint ty))
           = ''type '' @ Name name @ '' '' @ Fprint ty @ NL"
  using assms by (cases ty) (simp_all add: Let_def)

theorem non_struct_type_verbatim_witness:
  "IsExported (Ident ''PublicInterface'')
   \<and> (\<forall>fields. InterfaceType (Some (FieldList
          [Field None [Ident ''DoSomething''] (OtherExpr ''func() error''),
           Field None [Ident ''private''] (OtherExpr ''func()'')])) \<noteq> StructType fields)
   \<and> processDeclaration printText (GenDecl None tokTYPE [TypeSpec (Ident ''PublicInterface'')
         (InterfaceType (Some (FieldList
          [Field None [Ident ''DoSomething''] (OtherExpr ''func() error''),
           Field None [Ident ''private''] (OtherExpr ''func()'')])))])
       = Inr [TypeLine ''PublicInterface''
                (printText (InterfaceType (Some (FieldList
                   [Field None [Ident ''DoSomething''] (OtherExpr ''func() error''),
                    Field None [Ident ''private''] (OtherExpr ''func()'')])))), Blank]"
proof -
  have h: "IsExported (Ident ''PublicInterface'')"
    by (simp add: IsExported_def)
  have n: "\<forall>fields. InterfaceType (Some (FieldList
          [Field None [Ident ''DoSomething''] (OtherExpr ''func() error''),
           Field None [Ident ''private''] (OtherExpr ''func()'')])) \<noteq> StructType fields"
    by simp
  from non_struct_type_verbatim [OF h n, of printText None tokTYPE] h n
  show ?thesis
    by (simp add: docLines_def docText_def del: processDeclaration.simps printText.simps)
qed

text \<open>
  C10. In an exported struct type an embedded field (an entry without a field name) is
  never written, whatever its type; of an entry that declares several names only the
  first is tested with \<open>IsExported\<close> and only the first is written, so that the lines of
  the entry are those of the entry with its first name alone.
\<close>

theorem struct_fields_first_name_only:
  "fieldLines Fprint (Field doc [] ty) = []
   \<and> fieldLines Fprint (Field doc (n # ns) ty) = fieldLines Fprint (Field doc [n] ty)
   \<and> (\<not> IsExported n \<longrightarrow> fieldLines Fprint (Field doc (n # ns) ty) = [])
   \<and> (IsExported n \<longrightarrow>
        filter isFieldLine (fieldLines Fprint (Field doc (n # ns) ty))
        = [FieldLine (Name n) (Fprint ty)])
   \<and> (IsExported name \<longrightarrow>
        processSpec Fprint gdoc tok (TypeSpec name (StructType (Some (FieldList fields))))
        = StructOpen (Name name) # concat (map (fieldLines Fprint) fields) @ [StructClose]
          @ docLines (docText gdoc) @ [Blank])"
  by (simp add: Let_def split: option.splits)

theorem struct_fields_first_name_only_witness:
  "IsExported (Ident ''A'') \<and> \<not> IsExported (Ident ''b'') \<and> IsExported (Ident ''T'')
   \<and> fieldLines printText (Field None [] (IdentExpr (Ident ''Embedded''))) = []
   \<and> filter isFieldLine
       (fieldLines printText (Field None [Ident ''A'', Ident ''B''] (IdentExpr (Ident ''int''))))
     = [FieldLine ''A'' ''int'']
   \<and> fieldLines printText (Field None [Ident ''b'', Ident ''B''] (IdentExpr (Ident ''int''))) = []
   \<and> processSpec printText None tokTYPE
       (TypeSpec (Ident ''T'') (StructType (Some (FieldList
          [Field None [] (IdentExpr (Ident ''Embedded'')),
           Field None [Ident ''b'', Ident ''B''] (IdentExpr (Ident ''int''))]))))
     = [StructOpen ''T'', StructClose, Blank]"
proof -
  let ?fields = "[Field None [] (IdentExpr (Ident ''Embedded'')),
      Field None [Ident ''b'', Ident ''B''] (IdentExpr (Ident ''int''))]"
  have h: "IsExported (Ident ''A'')" "\<not> IsExported (Ident ''b'')" "IsExported (Ident ''T'')"
    by (simp_all add: IsExported_def)
  note t1 = struct_fields_first_name_only [of printText None "IdentExpr (Ident ''Embedded'')"
      "Ident ''b''" "[Ident ''B'']" "Ident ''T''" None tokTYPE ?fields]
  note t2 = struct_fields_first_name_only [of printText None "IdentExpr (Ident ''int'')"
      "Ident ''A''" "[Ident ''B'']" "Ident ''T''" None tokTYPE ?fields]
  note t3 = struct_fields_first_name_only [of printText None "IdentExpr (Ident ''int'')"
      "Ident ''b''" "[Ident ''B'']" "Ident ''T''" None tokTYPE ?fields]
  have a: "fieldLines printText (Field None [] (IdentExpr (Ident ''Embedded''))) = []"
    using t1 by blast
  have "filter isFieldLine
      (fieldLines printText (Field None [Ident ''A'', Ident ''B''] (IdentExpr (Ident ''int''))))
      = [FieldLine (Name (Ident ''A'')) (printText (IdentExpr (Ident ''int'')))]"
    using t2 h(1) by blast
  then have b: "filter isFieldLine
      (fieldLines printText (Field None [Ident ''A'', Ident ''B''] (IdentExpr (Ident ''int''))))
      = [FieldLine ''A'' ''int'']"
    by simp
  have c: "fieldLines printText (Field None [Ident ''b'', Ident ''B''] (IdentExpr (Ident ''int'')))
      = []"
    using t3 h(2) by blast
  have "processSpec printText None tokTYPE
      (TypeSpec (Ident ''T'') (StructType (Some (FieldList ?fields))))
      = StructOpen (Name (Ident ''T'')) # concat (map (fieldLines printText) ?fields)
        @ [StructClose] @ docLines (docText None) @ [Blank]"
    using t3 h(3) by blast
  then have d: "processSpec printText None tokTYPE
      (TypeSpec (Ident ''T'') (StructType (Some (FieldList ?fields))))
      = [StructOpen ''T'', StructClose, Blank]"
    by (simp add: a c docLines_def docText_def del: fieldLines.simps processSpec.simps)
  from h a b c d show ?thesis by blast
qed

lemma field_lines_of_single_names:
  assumes "\<forall>field \<in> set fields. length (fieldNames field) = 1"
  shows "length (filter isFieldLine (concat (map (fieldLines Fprint) fields)))
       = length (exportedFields fields)"
  using assms
proof (induction fields)
  case Nil
  show ?case by (simp add: exportedFields_def)
next
  case (Cons field fields)
  obtain doc names ty where field: "field = Field doc names ty"
    by (cases field)
  with Cons.prems obtain n where "names = [n]"
    by (cases names) auto
  with Cons field show ?case
    by (simp add: exportedFields_def split: option.splits)
qed




text \<open>
  C3. The specification asks for one field line for each exported field of an exported
  struct type. For \<^verbatim>\<open>type T struct { A, B int }\<close> the program writes the single field
  line of \<^verbatim>\<open>A\<close>, although the struct has the two exported fields \<^verbatim>\<open>A\<close> and \<^verbatim>\<open>B\<close>:
  the loop over the field list reads \<^verbatim>\<open>field.Names[0]\<close> only, where the loop over the
  names of a value specification goes through all of them.
\<close>

theorem struct_entry_with_two_exported_names:
  "processDeclaration printText
     (GenDecl None tokTYPE
        [TypeSpec (Ident ''T'')
           (StructType (Some (FieldList
              [Field None [Ident ''A'', Ident ''B''] (IdentExpr (Ident ''int''))])))])
   = Inr [StructOpen ''T'', FieldLine ''A'' ''int'', StructClose, Blank]
   \<and> length (filter isFieldLine [StructOpen ''T'', FieldLine ''A'' ''int'', StructClose, Blank]) = 1
   \<and> length (exportedFields [Field None [Ident ''A'', Ident ''B''] (IdentExpr (Ident ''int''))])
       = 2"
  by (simp add: IsExported_def exportedFields_def docLines_def docText_def)

subsection \<open>Discovery\<close>

lemma HasSuffix_iff: "HasSuffix s suffix \<longleftrightarrow> (\<exists>ys. s = ys @ suffix)"
proof
  assume "HasSuffix s suffix"
  then have "s = take (length s - length suffix) s @ suffix"
    by (metis HasSuffix_def append_take_drop_id)
  then show "\<exists>ys. s = ys @ suffix" ..
next
  assume "\<exists>ys. s = ys @ suffix"
  then show "HasSuffix s suffix" by (auto simp: HasSuffix_def)
qed

lemma HasSuffix_Base:
  assumes "CHR ''/'' \<notin> set suffix"
  shows "HasSuffix path suffix \<longleftrightarrow> HasSuffix (Base path) suffix"
proof
  assume "HasSuffix path suffix"
  then obtain ys where "path = ys @ suffix" by (auto simp: HasSuffix_iff)
  moreover have "takeWhile (\<lambda>c. c \<noteq> CHR ''/'') (rev suffix @ rev ys) =
      rev suffix @ takeWhile (\<lambda>c. c \<noteq> CHR ''/'') (rev ys)"
    by (rule takeWhile_append2) (use assms in auto)
  ultimately have "Base path = rev (takeWhile (\<lambda>c. c \<noteq> CHR ''/'') (rev ys)) @ suffix"
    by (simp add: Base_def)
  then show "HasSuffix (Base path) suffix" by (auto simp: HasSuffix_iff)
next
  assume "HasSuffix (Base path) suffix"
  then obtain zs where "Base path = zs @ suffix" by (auto simp: HasSuffix_iff)
  moreover have "path = rev (dropWhile (\<lambda>c. c \<noteq> CHR ''/'') (rev path)) @ Base path"
    by (metis Base_def rev_append rev_rev_ident takeWhile_dropWhile_id)
  ultimately have "path = (rev (dropWhile (\<lambda>c. c \<noteq> CHR ''/'') (rev path)) @ zs) @ suffix"
    by simp
  then show "HasSuffix path suffix" unfolding HasSuffix_iff by blast
qed

lemma walkFn_readable:
  "walkFn ignoreTests path (Some (FileInfo False)) None files =
     (files @ filter (isGoFile ignoreTests) [path], Return None)"
  "walkFn ignoreTests path (Some (FileInfo True)) None files = (files, Return None)"
  by (auto simp: walkFn_def isGoFile_def)

lemma walk_readable:
  "readable node \<Longrightarrow>
     walk (walkFn ignoreTests) path node s =
       (s @ filter (isGoFile ignoreTests) (filesBelow path node), Return None)"
  "readableEntries entries \<Longrightarrow>
     walkEntries (walkFn ignoreTests) path entries s =
       (s @ filter (isGoFile ignoreTests) (filesBelowEntries path entries), Return None)"
proof (induction path node and path entries arbitrary: s and s
    rule: filesBelow_filesBelowEntries.induct)
  case (1 path)
  show ?case by (simp add: walkFn_readable)
next
  case (2 path entries)
  then show ?case by (simp add: walkFn_readable)
next
  case (6 path entry entries)
  then show ?case by simp
qed simp_all

lemma filesBelow_entryAt:
  "entryAt root tree path node \<Longrightarrow> p \<in> set (filesBelow path node) \<Longrightarrow>
     entryAt root tree p NonDirectory"
  "entryAt root tree path (Directory entries0) \<Longrightarrow> set entries \<subseteq> set entries0 \<Longrightarrow>
     p \<in> set (filesBelowEntries path entries) \<Longrightarrow> entryAt root tree p NonDirectory"
proof (induction path node and path entries arbitrary: and entries0
    rule: filesBelow_filesBelowEntries.induct)
  case (2 path entries)
  from "2.IH" [OF "2.prems"(1)] "2.prems"(2) show ?case by simp
next
  case (6 path entry entries)
  from "6.prems"(2) have "(fst entry, snd entry) \<in> set entries0" by simp
  with "6.prems"(1) have "entryAt root tree (Join path (fst entry)) (snd entry)"
    by (rule entryAt.below)
  with 6 show ?case by auto
qed simp_all

lemma filesBelowEntries_member:
  "(name, node) \<in> set entries \<Longrightarrow>
     set (filesBelow (Join path name) node) \<subseteq> set (filesBelowEntries path entries)"
  by (induction entries) auto

lemma entryAt_filesBelow:
  "entryAt root tree path node \<Longrightarrow> set (filesBelow path node) \<subseteq> set (filesBelow root tree)"
proof (induction rule: entryAt.induct)
  case atRoot
  show ?case by simp
next
  case (below path entries name node)
  then show ?case using filesBelowEntries_member [of name node entries path] by auto
qed

lemma set_filesBelow:
  "p \<in> set (filesBelow root tree) \<longleftrightarrow> entryAt root tree p NonDirectory"
  using filesBelow_entryAt(1) [OF entryAt.atRoot] entryAt_filesBelow [of root tree p NonDirectory]
  by auto

lemma HasSuffix_Join: "HasSuffix name suffix \<Longrightarrow> HasSuffix (Join dir name) suffix"
  unfolding HasSuffix_iff Join_def
  by (metis append.assoc append_Nil)

text \<open>
  C8. Discovery walks the whole tree below the root: on a readable tree \<open>findGoFiles\<close>
  returns a path exactly when, at any depth below the root, it is the path of an entry
  that is no directory and whose name ends in \<^verbatim>\<open>.go\<close> (and, with \<open>ignoreTests\<close>, not
  in \<^verbatim>\<open>_test.go\<close>). So a file ending in \<^verbatim>\<open>.go\<close> in a directory found anywhere below
  the root is returned, also when the top level of the root holds no file at all.
\<close>

theorem findGoFiles_walks_whole_subtree:
  assumes "readable tree"
  shows "(p \<in> set (fst (findGoFiles tree root ignoreTests)) \<longleftrightarrow>
            entryAt root tree p NonDirectory \<and> HasSuffix (Base p) ''.go'' \<and>
            \<not> (ignoreTests \<and> HasSuffix (Base p) ''_test.go''))
       \<and> snd (findGoFiles tree root ignoreTests) = Return None
       \<and> (entryAt root tree dir (Directory entries) \<and> (name, NonDirectory) \<in> set entries \<and>
            HasSuffix name ''.go'' \<longrightarrow>
            Join dir name \<in> set (fst (findGoFiles tree root False)))"
proof -
  have found: "fst (findGoFiles tree root b) = filter (isGoFile b) (filesBelow root tree)"
    and ok: "snd (findGoFiles tree root b) = Return None" for b
    using assms by (simp_all add: findGoFiles_def walk_readable)
  have "Join dir name \<in> set (fst (findGoFiles tree root False))"
    if "entryAt root tree dir (Directory entries)" "(name, NonDirectory) \<in> set entries"
      "HasSuffix name ''.go''"
  proof -
    from that(1,2) have "entryAt root tree (Join dir name) NonDirectory"
      by (rule entryAt.below)
    with that(3) show ?thesis
      by (simp add: found set_filesBelow isGoFile_def HasSuffix_Join)
  qed
  then show ?thesis
    by (simp add: found ok set_filesBelow isGoFile_def HasSuffix_Base [of "''.go''" p]
        HasSuffix_Base [of "''_test.go''" p])
qed

theorem findGoFiles_walks_whole_subtree_witness:
  "readable (Directory [(''nested'', Directory [(''nested.go'', NonDirectory)])])
   \<and> entryAt ''empty'' (Directory [(''nested'', Directory [(''nested.go'', NonDirectory)])])
       ''empty/nested'' (Directory [(''nested.go'', NonDirectory)])
   \<and> (''nested.go'', NonDirectory) \<in> set [(''nested.go'', NonDirectory)]
   \<and> HasSuffix ''nested.go'' ''.go''
   \<and> ''empty/nested/nested.go'' \<in> set (fst (findGoFiles
         (Directory [(''nested'', Directory [(''nested.go'', NonDirectory)])]) ''empty'' False))"
proof -
  let ?tree = "Directory [(''nested'', Directory [(''nested.go'', NonDirectory)])]"
  have r: "readable ?tree"
    by simp
  have "entryAt ''empty'' ?tree (Join ''empty'' ''nested'') (Directory [(''nested.go'', NonDirectory)])"
    by (rule entryAt.below [OF entryAt.atRoot]) simp
  then have e: "entryAt ''empty'' ?tree ''empty/nested'' (Directory [(''nested.go'', NonDirectory)])"
    by (simp add: Join_def)
  have m: "(''nested.go'', NonDirectory) \<in> set [(''nested.go'', NonDirectory)]"
    by simp
  have g: "HasSuffix ''nested.go'' ''.go''"
    by (simp add: HasSuffix_def)
  from findGoFiles_walks_whole_subtree [OF r, of _ "''empty''" _ "''empty/nested''"
      "[(''nested.go'', NonDirectory)]" "''nested.go''"] e m g
  have "Join ''empty/nested'' ''nested.go'' \<in> set (fst (findGoFiles ?tree ''empty'' False))"
    by blast
  then have "''empty/nested/nested.go'' \<in> set (fst (findGoFiles ?tree ''empty'' False))"
    by (simp add: Join_def)
  with r e m g show ?thesis by blast
qed

lemma walkFn_ignoreTests:
  "walkFn True path info err (filter (\<lambda>p. \<not> HasSuffix p ''_test.go'') files) =
     (filter (\<lambda>p. \<not> HasSuffix p ''_test.go'') (fst (walkFn False path info err files)),
      snd (walkFn False path info err files))"
  by (simp add: walkFn_def split: option.splits)

lemma walk_ignoreTests:
  "walk (walkFn True) path node (filter (\<lambda>p. \<not> HasSuffix p ''_test.go'') s) =
     (filter (\<lambda>p. \<not> HasSuffix p ''_test.go'') (fst (walk (walkFn False) path node s)),
      snd (walk (walkFn False) path node s))"
  "walkEntries (walkFn True) path entries (filter (\<lambda>p. \<not> HasSuffix p ''_test.go'') s) =
     (filter (\<lambda>p. \<not> HasSuffix p ''_test.go'') (fst (walkEntries (walkFn False) path entries s)),
      snd (walkEntries (walkFn False) path entries s))"
proof (induction path node and path entries arbitrary: s and s
    rule: filesBelow_filesBelowEntries.induct)
  case (2 path entries)
  show ?case
    by (cases "walkFn False path (Some (FileInfo True)) None s")
       (simp add: walkFn_ignoreTests "2.IH" split: outcome.splits option.splits)
next
  case (6 path entry entries)
  show ?case
    by (cases "walk (walkFn False) (Join path (fst entry)) (snd entry) s")
       (simp add: "6.IH" split: outcome.splits option.splits)
qed (simp_all add: walkFn_ignoreTests)

lemma findGoFiles_ignoreTests:
  "fst (findGoFiles tree root True) =
     filter (\<lambda>p. \<not> HasSuffix (Base p) ''_test.go'') (fst (findGoFiles tree root False))"
  "snd (findGoFiles tree root True) = snd (findGoFiles tree root False)"
  using walk_ignoreTests(1) [of root tree "[]"]
  by (simp_all add: findGoFiles_def HasSuffix_Base [of "''_test.go''", symmetric])

text \<open>
  C7, as amended. Over the same root, discovery with \<open>ignoreTests\<close> returns the paths of
  discovery without it, in the same order, less exactly those whose name ends in
  \<^verbatim>\<open>_test.go\<close>, and fails in the same way: its set of paths is a subset of the other,
  the difference is exactly the files named \<^verbatim>\<open>..._test.go\<close>, and the subset is strict
  exactly when there is such a file.
\<close>

theorem findGoFiles_excludes_exactly_test_files:
  "fst (findGoFiles tree root True) =
     filter (\<lambda>p. \<not> HasSuffix (Base p) ''_test.go'') (fst (findGoFiles tree root False))
   \<and> snd (findGoFiles tree root True) = snd (findGoFiles tree root False)
   \<and> set (fst (findGoFiles tree root True)) \<subseteq> set (fst (findGoFiles tree root False))
   \<and> set (fst (findGoFiles tree root False)) - set (fst (findGoFiles tree root True)) =
       {p \<in> set (fst (findGoFiles tree root False)). HasSuffix (Base p) ''_test.go''}
   \<and> (set (fst (findGoFiles tree root True)) \<subset> set (fst (findGoFiles tree root False)) \<longleftrightarrow>
       (\<exists>p \<in> set (fst (findGoFiles tree root False)). HasSuffix (Base p) ''_test.go''))"
  by (auto simp: findGoFiles_ignoreTests)

theorem findGoFiles_excludes_exactly_test_files_witness:
  "fst (findGoFiles
     (Directory [(''file1.go'', NonDirectory), (''file3_test.go'', NonDirectory),
        (''notgo.txt'', NonDirectory),
        (''subdir'', Directory [(''file4.go'', NonDirectory), (''file5_test.go'', NonDirectory)])])
     ''tmp'' False)
   = [''tmp/file1.go'', ''tmp/file3_test.go'', ''tmp/subdir/file4.go'',
      ''tmp/subdir/file5_test.go'']
   \<and> fst (findGoFiles
     (Directory [(''file1.go'', NonDirectory), (''file3_test.go'', NonDirectory),
        (''notgo.txt'', NonDirectory),
        (''subdir'', Directory [(''file4.go'', NonDirectory), (''file5_test.go'', NonDirectory)])])
     ''tmp'' True)
   = [''tmp/file1.go'', ''tmp/subdir/file4.go'']"
proof -
  let ?tree = "Directory [(''file1.go'', NonDirectory), (''file3_test.go'', NonDirectory),
        (''notgo.txt'', NonDirectory),
        (''subdir'', Directory [(''file4.go'', NonDirectory), (''file5_test.go'', NonDirectory)])]"
  have all: "fst (findGoFiles ?tree ''tmp'' False)
      = [''tmp/file1.go'', ''tmp/file3_test.go'', ''tmp/subdir/file4.go'',
         ''tmp/subdir/file5_test.go'']"
    by (simp add: findGoFiles_def walkFn_def Join_def HasSuffix_def)
  from findGoFiles_excludes_exactly_test_files [of ?tree "''tmp''"] all
  show ?thesis
    by (simp add: Base_def HasSuffix_def)
qed

text \<open>
  C7, as stated, fails: where the tree holds no file named \<^verbatim>\<open>..._test.go\<close> the two
  discoveries return the same paths, and the subset is not strict.
\<close>

theorem findGoFiles_strict_subset_counterexample:
  "\<not> set (fst (findGoFiles (Directory [(''a.go'', NonDirectory)]) ''proj'' True))
      \<subset> set (fst (findGoFiles (Directory [(''a.go'', NonDirectory)]) ''proj'' False))"
  by (simp add: findGoFiles_def walkFn_def Join_def HasSuffix_def)

end
